theory Spec2Isabelle
  imports Complex_Main "HOL-Library.Sublist"
begin

section \<open>Maker-only volume bot: price oracle, pricing policy, trackers\<close>

text \<open>
  Shallow embedding of \<^verbatim>\<open>volume_bot_maker_only_v3.py\<close> and of the closing leg of
  \<^verbatim>\<open>shorter.py\<close>. Python floats (prices, sizes, P&L, clock readings) are modelled as
  exact rationals, Python ints as \<open>int\<close>. Console output is dropped. Every exception the
  code can raise is a value of \<open>py_error\<close>, and a \<^verbatim>\<open>try/except\<close> is a case split on it.
\<close>

subsection \<open>Exceptions\<close>

datatype py_error =
  GatewayError | ZeroDivisionError | StatisticsError | TypeError | IndexError

definition bind_e :: "py_error + 'a \<Rightarrow> ('a \<Rightarrow> py_error + 'b) \<Rightarrow> py_error + 'b" where
  "bind_e m f = (case m of Inl e \<Rightarrow> Inl e | Inr x \<Rightarrow> f x)"

subsection \<open>\<^verbatim>\<open>statistics.median\<close> and \<^verbatim>\<open>filter_outlier_prices\<close>\<close>

text \<open>
  \<^verbatim>\<open>statistics.median(data)\<close> sorts, raises \<^verbatim>\<open>StatisticsError\<close> on no data, returns
  the middle element for an odd count and the mean of the two middle elements otherwise.
\<close>

definition median :: "rat list \<Rightarrow> py_error + rat" where
  "median xs =
     (let data = sort xs; n = length data
      in if n = 0 then Inl StatisticsError
         else if n mod 2 = 1 then Inr (data ! (n div 2))
         else Inr ((data ! (n div 2 - 1) + data ! (n div 2)) / 2))"

text \<open>
  \<^verbatim>\<open>
  def filter_outlier_prices(prices, max_deviation_percent=2.0):
      if len(prices) <= 2:
          return prices
      median_price = statistics.median(prices)
      max_deviation = median_price * (max_deviation_percent / 100)
      filtered = []
      for price in prices:
          deviation = abs(price - median_price)
          if deviation <= max_deviation:
              filtered.append(price)
      return filtered if filtered else [prices[0]]
  \<close>
  The \<^verbatim>\<open>for\<close> loop is the recursion \<open>keep_within\<close>; \<^verbatim>\<open>prices[0]\<close> is read only
  when \<open>2 < length prices\<close>.
\<close>

fun keep_within :: "rat \<Rightarrow> rat \<Rightarrow> rat list \<Rightarrow> rat list" where
  "keep_within median_price max_deviation [] = []"
| "keep_within median_price max_deviation (p # prices) =
     (if \<bar>p - median_price\<bar> \<le> max_deviation
      then p # keep_within median_price max_deviation prices
      else keep_within median_price max_deviation prices)"

definition filter_outlier_prices :: "rat list \<Rightarrow> rat \<Rightarrow> py_error + rat list" where
  "filter_outlier_prices prices max_deviation_percent =
     (if length prices \<le> 2 then Inr prices
      else bind_e (median prices) (\<lambda>median_price.
        let max_deviation = median_price * (max_deviation_percent / 100);
            filtered = keep_within median_price max_deviation prices
        in Inr (if filtered \<noteq> [] then filtered else [prices ! 0])))"

subsection \<open>\<^verbatim>\<open>get_robust_market_prices\<close>\<close>

text \<open>
  The order book as the gateway returns it: one list of levels per side, best first. The
  outcome of \<^verbatim>\<open>hibachi.get_orderbook\<close> is an argument of the model: \<open>Inl\<close> when the call
  raises, \<open>Inr\<close> with the book otherwise. The fields of a level are the numbers that
  \<^verbatim>\<open>float(bid.price)\<close> and \<^verbatim>\<open>float(bid.quantity)\<close> give.
\<close>

record level =
  price :: rat
  quantity :: rat

record orderbook =
  bid :: "level list"
  ask :: "level list"

text \<open>Truth value of an optional float: \<^verbatim>\<open>None\<close> and \<^verbatim>\<open>0.0\<close> are false.\<close>

definition truthy :: "rat option \<Rightarrow> bool" where
  "truthy v = (case v of None \<Rightarrow> False | Some x \<Rightarrow> x \<noteq> 0)"

text \<open>
  \<^verbatim>\<open>
  if top_bids and top_bid_sizes:
      total_bid_size = sum(top_bid_sizes)
      weighted_bid = sum(p * s for p, s in zip(top_bids, top_bid_sizes)) / total_bid_size
  else:
      weighted_bid = best_bid_simple
  \<close>
\<close>

definition weighted_price :: "rat list \<Rightarrow> rat list \<Rightarrow> rat option \<Rightarrow> py_error + rat option" where
  "weighted_price top_prices top_sizes best_simple =
     (if top_prices \<noteq> [] \<and> top_sizes \<noteq> [] then
        (let total_size = sum_list top_sizes
         in if total_size = 0 then Inl ZeroDivisionError
            else Inr (Some (sum_list (map (\<lambda>(p, s). p * s) (zip top_prices top_sizes))
                            / total_size)))
      else Inr best_simple)"

text \<open>
  \<^verbatim>\<open>
  if best_bid_simple and weighted_bid:
      bid_deviation = abs(best_bid_simple - weighted_bid) / weighted_bid
      if bid_deviation > 0.01:
          best_bid = weighted_bid
      else:
          best_bid = best_bid_simple
  else:
      best_bid = best_bid_simple
  \<close>
\<close>

definition checked_best :: "rat option \<Rightarrow> rat option \<Rightarrow> rat option" where
  "checked_best best_simple weighted =
     (case (best_simple, weighted) of
        (Some b, Some w) \<Rightarrow>
          if b \<noteq> 0 \<and> w \<noteq> 0
          then (if \<bar>b - w\<bar> / w > 0.01 then Some w else Some b)
          else Some b
      | _ \<Rightarrow> best_simple)"

text \<open>\<^verbatim>\<open>best_bid and best_ask and best_bid >= best_ask\<close>\<close>

definition inverted :: "rat option \<Rightarrow> rat option \<Rightarrow> bool" where
  "inverted best_bid best_ask =
     (case (best_bid, best_ask) of
        (Some b, Some a) \<Rightarrow> b \<noteq> 0 \<and> a \<noteq> 0 \<and> b \<ge> a
      | _ \<Rightarrow> False)"

text \<open>\<^verbatim>\<open>best_bid >= best_ask\<close> on the weighted prices: comparing \<^verbatim>\<open>None\<close> raises.\<close>

definition py_ge :: "rat option \<Rightarrow> rat option \<Rightarrow> py_error + bool" where
  "py_ge x y =
     (case (x, y) of (Some b, Some a) \<Rightarrow> Inr (b \<ge> a) | _ \<Rightarrow> Inl TypeError)"

text \<open>
  \<^verbatim>\<open>
  statistics.median(bid_prices[:5]) if len(bid_prices) >= 3
      else bid_prices[1] if len(bid_prices) > 1 else bid_prices[0]
  \<close>
\<close>

definition top_median :: "rat list \<Rightarrow> py_error + rat" where
  "top_median prices =
     (if length prices \<ge> 3 then median (take 5 prices)
      else if length prices > 1 then Inr (prices ! 1)
      else if prices \<noteq> [] then Inr (prices ! 0)
      else Inl IndexError)"

text \<open>
  The body of the \<^verbatim>\<open>try\<close> block. The results of the two \<open>filter_outlier_prices\<close> calls
  (\<^verbatim>\<open>filtered_bids\<close>, \<^verbatim>\<open>filtered_asks\<close>) are bound and, as in the source, never read:
  the weighted averages are taken over \<^verbatim>\<open>bid_prices[:3]\<close> and \<^verbatim>\<open>ask_prices[:3]\<close>.
\<close>

definition robust_prices :: "orderbook \<Rightarrow> nat \<Rightarrow> py_error + (rat option \<times> rat option)" where
  "robust_prices ob depth =
     (let bid_prices = map price (take depth (bid ob));
          bid_sizes = map quantity (take depth (bid ob));
          ask_prices = map price (take depth (ask ob));
          ask_sizes = map quantity (take depth (ask ob));
          best_bid_simple = (if bid_prices \<noteq> [] then Some (bid_prices ! 0) else None);
          best_ask_simple = (if ask_prices \<noteq> [] then Some (ask_prices ! 0) else None)
      in bind_e (filter_outlier_prices (drop 1 bid_prices) 1.5) (\<lambda>filtered_bids.
         bind_e (filter_outlier_prices (drop 1 ask_prices) 1.5) (\<lambda>filtered_asks.
         bind_e (weighted_price (take 3 bid_prices) (take 3 bid_sizes) best_bid_simple)
           (\<lambda>weighted_bid.
         bind_e (weighted_price (take 3 ask_prices) (take 3 ask_sizes) best_ask_simple)
           (\<lambda>weighted_ask.
         let best_bid = checked_best best_bid_simple weighted_bid;
             best_ask = checked_best best_ask_simple weighted_ask
         in if inverted best_bid best_ask then
              bind_e (py_ge weighted_bid weighted_ask) (\<lambda>still_invalid.
                if still_invalid then
                  bind_e (top_median bid_prices) (\<lambda>median_bid.
                  bind_e (top_median ask_prices) (\<lambda>median_ask.
                  Inr (Some median_bid, Some median_ask)))
                else Inr (weighted_bid, weighted_ask))
            else Inr (best_bid, best_ask))))))"

text \<open>
  \<^verbatim>\<open>except Exception: return None, None\<close>: every exception of the gateway call and of the
  body becomes the pair \<open>(None, None)\<close>.
\<close>

definition get_robust_market_prices ::
    "py_error + orderbook \<Rightarrow> nat \<Rightarrow> rat option \<times> rat option" where
  "get_robust_market_prices gateway depth =
     (case bind_e gateway (\<lambda>orderbook. robust_prices orderbook depth) of
        Inl e \<Rightarrow> (None, None)
      | Inr r \<Rightarrow> r)"

text \<open>
  The callers' test on the result, \<^verbatim>\<open>if not best_bid: return False, 0, None, 0\<close>: the
  quote is taken as unavailable when its first component is false.
\<close>

definition unavailable :: "rat option \<times> rat option \<Rightarrow> bool" where
  "unavailable q = (\<not> truthy (fst q))"

definition levels :: "(rat \<times> rat) list \<Rightarrow> level list" where
  "levels ps = map (\<lambda>(p, s). \<lparr>price = p, quantity = s\<rparr>) ps"

subsection \<open>Closing leg: \<^verbatim>\<open>place_maker_sell_order\<close>\<close>

definition max_wait_time :: int where
  "max_wait_time = 1200"

definition sell_adjustment_interval :: int where
  "sell_adjustment_interval = 30"

text \<open>\<^verbatim>\<open>int(x)\<close> on a float truncates towards zero.\<close>

definition py_int :: "rat \<Rightarrow> int" where
  "py_int x = (if x \<ge> 0 then \<lfloor>x\<rfloor> else \<lceil>x\<rceil>)"

text \<open>
  The first placement (source lines 470 to 499 of the v3 file, the same chain in
  \<^verbatim>\<open>shorter.py\<close>): the pair of \<^verbatim>\<open>offset\<close> and \<^verbatim>\<open>current_price\<close> that the band of
  \<^verbatim>\<open>potential_pnl\<close> assigns.
\<close>

definition sell_initial :: "rat \<Rightarrow> rat \<Rightarrow> rat \<Rightarrow> rat \<times> rat" where
  "sell_initial best_ask buy_price potential_pnl =
     (if potential_pnl \<ge> 3.0 then (1.50, best_ask + 1.50)
      else if potential_pnl \<ge> 1.5 then (0.80, best_ask + 0.80)
      else if potential_pnl \<ge> 0.50 then (0.30, best_ask + 0.30)
      else if potential_pnl \<ge> - 0.20 then (0.20, max (best_ask + 0.20) (buy_price + 0.10))
      else if potential_pnl \<ge> - 1.0 then (0.10, best_ask + 0.10)
      else (0.05, best_ask + 0.05))"

text \<open>
  The re-price chain inside the loop (source lines 580 to 623). \<^verbatim>\<open>adjustment_count\<close> has
  been incremented before it runs. The forced-exit branch assigns \<^verbatim>\<open>current_price\<close> only,
  so \<^verbatim>\<open>offset\<close> keeps its previous value there.
\<close>

definition sell_reprice :: "int \<Rightarrow> rat \<Rightarrow> int \<Rightarrow> rat \<Rightarrow> rat \<Rightarrow> rat \<times> rat" where
  "sell_reprice elapsed potential_pnl adjustment_count best_ask offset =
     (if elapsed \<ge> max_wait_time then (offset, best_ask + 0.01)
      else if potential_pnl \<ge> 3.0 then
        (let offset = max (1.20 - (of_int adjustment_count * 0.15)) 0.50
         in (offset, best_ask + offset))
      else if potential_pnl \<ge> 1.5 then
        (let offset = max (0.60 - (of_int adjustment_count * 0.10)) 0.30
         in (offset, best_ask + offset))
      else if potential_pnl \<ge> 0.50 then
        (let offset = max (0.30 - (of_int adjustment_count * 0.05)) 0.15
         in (offset, best_ask + offset))
      else if potential_pnl \<ge> 0.0 then
        (let offset = max (0.15 - (of_int adjustment_count * 0.03)) 0.05
         in (offset, best_ask + offset))
      else if potential_pnl \<ge> - 1.0 then
        (let offset = (if adjustment_count \<le> 3 then 0.10 - (of_int adjustment_count * 0.02)
                       else 0.02)
         in (offset, best_ask + offset))
      else (0.01, best_ask + 0.01))"

text \<open>
  The state of the leg between two iterations of \<^verbatim>\<open>while True\<close>, and what one iteration
  observes: the clock after \<^verbatim>\<open>time.sleep(5)\<close>, whether \<^verbatim>\<open>get_order_details\<close> reports
  \<^verbatim>\<open>FILLED\<close> (an exception there is caught and counts as not filled), the result of
  \<open>get_robust_market_prices\<close>, and the outcome of \<^verbatim>\<open>place_limit_order\<close> (the new order id
  with the clock read after it, or \<open>None\<close> when it raises). The update of the trend
  tracker's price history inside the leg is left out of this state.
\<close>

record sell_leg =
  order_id :: nat
  current_price :: rat
  offset :: rat
  adjustment_count :: int
  order_start_time :: rat
  last_adjustment :: rat

record leg_obs =
  now :: rat
  filled :: bool
  quote :: "rat option \<times> rat option"
  placed :: "(nat \<times> rat) option"

datatype leg_outcome =
  Continue sell_leg
| Returned bool rat nat int
| Raised py_error

text \<open>
  The adjusting block: count the adjustment, cancel (best effort), refresh the quote,
  \<^verbatim>\<open>continue\<close> when \<^verbatim>\<open>not best_bid\<close>, else re-price and place. \<^verbatim>\<open>best_ask - buy_price\<close>
  raises \<^verbatim>\<open>TypeError\<close> outside every \<^verbatim>\<open>try\<close> when \<^verbatim>\<open>best_ask\<close> is \<^verbatim>\<open>None\<close>.
\<close>

definition sell_adjust :: "rat \<Rightarrow> rat \<Rightarrow> int \<Rightarrow> sell_leg \<Rightarrow> leg_obs \<Rightarrow> leg_outcome" where
  "sell_adjust buy_price qty elapsed s obs =
     (let s1 = s\<lparr>adjustment_count := adjustment_count s + 1\<rparr>
      in if \<not> truthy (fst (quote obs)) then Continue s1
         else (case snd (quote obs) of
                 None \<Rightarrow> Raised TypeError
               | Some best_ask \<Rightarrow>
                   (let potential_pnl = (best_ask - buy_price) * qty;
                        r = sell_reprice elapsed potential_pnl (adjustment_count s1)
                              best_ask (offset s1);
                        s2 = s1\<lparr>offset := fst r, current_price := snd r\<rparr>
                    in case placed obs of
                         None \<Rightarrow> Continue s2
                       | Some (oid, t) \<Rightarrow>
                           Continue (s2\<lparr>order_id := oid, last_adjustment := t\<rparr>))))"

text \<open>
  One iteration in \<^verbatim>\<open>volume_bot_maker_only_v3.py\<close>:
  \<^verbatim>\<open>if since_last_adj >= adjustment_interval:\<close>
\<close>

definition sell_iteration_v3 :: "rat \<Rightarrow> rat \<Rightarrow> sell_leg \<Rightarrow> leg_obs \<Rightarrow> leg_outcome" where
  "sell_iteration_v3 buy_price qty s obs =
     (let elapsed = py_int (now obs - order_start_time s);
          since_last_adj = py_int (now obs - last_adjustment s)
      in if filled obs
         then Returned True (current_price s) (order_id s) (adjustment_count s)
         else if since_last_adj \<ge> sell_adjustment_interval
         then sell_adjust buy_price qty elapsed s obs
         else Continue s)"

text \<open>
  One iteration in \<^verbatim>\<open>shorter.py\<close> (long close, \<^verbatim>\<open>is_short=False\<close>):
  \<^verbatim>\<open>if since_last_adj >= adjustment_interval or elapsed >= max_wait_time:\<close>
\<close>

definition sell_iteration_shorter :: "rat \<Rightarrow> rat \<Rightarrow> sell_leg \<Rightarrow> leg_obs \<Rightarrow> leg_outcome" where
  "sell_iteration_shorter entry_price qty s obs =
     (let elapsed = py_int (now obs - order_start_time s);
          since_last_adj = py_int (now obs - last_adjustment s)
      in if filled obs
         then Returned True (current_price s) (order_id s) (adjustment_count s)
         else if since_last_adj \<ge> sell_adjustment_interval \<or> elapsed \<ge> max_wait_time
         then sell_adjust entry_price qty elapsed s obs
         else Continue s)"

subsection \<open>\<^verbatim>\<open>MarketTrendTracker\<close>\<close>

record trend_tracker =
  price_history :: "(rat \<times> rat) list"
  consecutive_losses :: int
  last_cooldown_time :: rat
  total_cooldowns :: int

definition MarketTrendTracker :: trend_tracker where
  "MarketTrendTracker =
     \<lparr>price_history = [], consecutive_losses = 0, last_cooldown_time = 0,
      total_cooldowns = 0\<rparr>"

text \<open>
  \<^verbatim>\<open>add_price_point\<close> reads the clock twice: \<open>t_append\<close> stamps the new point, \<open>t_cutoff\<close>
  gives the cutoff of 1800 seconds.
\<close>

definition add_price_point :: "trend_tracker \<Rightarrow> rat \<Rightarrow> rat \<Rightarrow> rat \<Rightarrow> trend_tracker" where
  "add_price_point tr t_append t_cutoff p =
     (let history = price_history tr @ [(t_append, p)];
          cutoff = t_cutoff - 1800
      in tr\<lparr>price_history := filter (\<lambda>(t, p). t > cutoff) history\<rparr>)"

text \<open>
  \<^verbatim>\<open>
  def is_downtrend(self):
      if len(self.price_history) < 3:
          return False
      recent_prices = [p for _, p in self.price_history[-5:]]
      if len(recent_prices) < 3:
          return False
      downtrend_count = sum(1 for i in range(1, len(recent_prices))
                           if recent_prices[i] < recent_prices[i-1])
      return downtrend_count >= len(recent_prices) - 1
  \<close>
\<close>

definition is_downtrend :: "trend_tracker \<Rightarrow> bool" where
  "is_downtrend tr =
     (if length (price_history tr) < 3 then False
      else
        (let recent_prices =
               map snd (drop (length (price_history tr) - 5) (price_history tr))
         in if length recent_prices < 3 then False
            else
              (let downtrend_count =
                     sum_list (map (\<lambda>i. 1 :: int)
                       (filter (\<lambda>i. recent_prices ! i < recent_prices ! (i - 1))
                          [1 ..< length recent_prices]))
               in downtrend_count \<ge> int (length recent_prices) - 1)))"

definition record_cycle_result :: "trend_tracker \<Rightarrow> rat \<Rightarrow> trend_tracker" where
  "record_cycle_result tr pnl =
     (if pnl < - 0.50 then tr\<lparr>consecutive_losses := consecutive_losses tr + 1\<rparr>
      else tr\<lparr>consecutive_losses := 0\<rparr>)"

definition should_cooldown :: "trend_tracker \<Rightarrow> bool" where
  "should_cooldown tr = (consecutive_losses tr \<ge> 3)"

text \<open>
  The waiting loop of \<^verbatim>\<open>do_cooldown\<close>,
  \<^verbatim>\<open>while time.time() < cooldown_end: ...; time.sleep(10)\<close>, on a clock that each
  \<^verbatim>\<open>time.sleep(10)\<close> advances by ten seconds. It returns the clock at which the loop ends.
\<close>

function cooldown_wait :: "rat \<Rightarrow> rat \<Rightarrow> rat" where
  "cooldown_wait t cooldown_end =
     (if t < cooldown_end then cooldown_wait (t + 10) cooldown_end else t)"
  by pat_completeness auto
termination
proof (relation "measure (\<lambda>(t, cooldown_end). nat \<lceil>cooldown_end - t\<rceil>)")
  show "wf (measure (\<lambda>(t, cooldown_end). nat \<lceil>cooldown_end - t\<rceil>))"
    by simp
next
  fix t cooldown_end :: rat
  assume less: "t < cooldown_end"
  have "cooldown_end - (t + 10) = (cooldown_end - t) - 10"
    by simp
  then have step: "\<lceil>cooldown_end - (t + 10)\<rceil> = \<lceil>cooldown_end - t\<rceil> - 10"
    by (simp only: ceiling_diff_numeral)
  from less have "0 < \<lceil>cooldown_end - t\<rceil>"
    by simp
  with step show "((t + 10, cooldown_end), (t, cooldown_end))
      \<in> measure (\<lambda>(t, cooldown_end). nat \<lceil>cooldown_end - t\<rceil>)"
    by simp
qed

text \<open>
  \<^verbatim>\<open>do_cooldown(duration_minutes)\<close> started at clock \<open>t\<close>: the tracker after it and the
  clock at which it returns.
\<close>

definition do_cooldown :: "trend_tracker \<Rightarrow> rat \<Rightarrow> int \<Rightarrow> trend_tracker \<times> rat" where
  "do_cooldown tr t duration_minutes =
     (let tr1 = tr\<lparr>total_cooldowns := total_cooldowns tr + 1\<rparr>;
          tr2 = tr1\<lparr>last_cooldown_time := t\<rparr>;
          cooldown_end = t + of_int (duration_minutes * 60);
          t_end = cooldown_wait t cooldown_end
      in (tr2\<lparr>consecutive_losses := 0\<rparr>, t_end))"

subsection \<open>\<^verbatim>\<open>TradingStats\<close>\<close>

text \<open>
  The keys of a \<^verbatim>\<open>cycle_details\<close> entry carry the prefix \<open>cd_\<close>, and the field
  \<^verbatim>\<open>total_cooldowns\<close> of the statistics is \<open>stats_total_cooldowns\<close>, the plain name being
  the tracker's field.
\<close>

record cycle_detail =
  cd_success :: bool
  cd_buy_price :: rat
  cd_sell_price :: rat
  cd_quantity :: rat
  cd_pnl :: rat
  cd_buy_adjustments :: int
  cd_sell_adjustments :: int
  cd_fees_paid :: rat
  cd_volume :: rat

record trading_stats =
  start_time :: rat
  start_balance :: rat
  end_balance :: rat
  completed_cycles :: int
  failed_buys :: int
  failed_sells :: int
  total_buy_adjustments :: int
  total_sell_adjustments :: int
  total_volume :: rat
  total_fees_paid :: rat
  profitable_cycles :: int
  losing_cycles :: int
  stats_total_cooldowns :: int
  cycle_details :: "cycle_detail list"

definition TradingStats :: "rat \<Rightarrow> trading_stats" where
  "TradingStats t =
     \<lparr>start_time = t, start_balance = 0, end_balance = 0, completed_cycles = 0,
      failed_buys = 0, failed_sells = 0, total_buy_adjustments = 0,
      total_sell_adjustments = 0, total_volume = 0, total_fees_paid = 0,
      profitable_cycles = 0, losing_cycles = 0, stats_total_cooldowns = 0,
      cycle_details = []\<rparr>"

text \<open>The arguments of one \<^verbatim>\<open>add_cycle\<close> call are the fields of \<open>cycle_detail\<close> but the last.\<close>

definition add_cycle ::
    "trading_stats \<Rightarrow> bool \<Rightarrow> rat \<Rightarrow> rat \<Rightarrow> rat \<Rightarrow> rat \<Rightarrow> int \<Rightarrow> int \<Rightarrow> rat
     \<Rightarrow> trading_stats" where
  "add_cycle st success buy_price sell_price qty pnl buy_adjustments sell_adjustments
     fees_paid =
     (let st1 = st\<lparr>cycle_details := cycle_details st @
                   [\<lparr>cd_success = success, cd_buy_price = buy_price,
                     cd_sell_price = sell_price, cd_quantity = qty, cd_pnl = pnl,
                     cd_buy_adjustments = buy_adjustments,
                     cd_sell_adjustments = sell_adjustments, cd_fees_paid = fees_paid,
                     cd_volume = (if success then (buy_price + sell_price) * qty else 0)\<rparr>]\<rparr>;
          st2 = (if success then
                   (let a = st1\<lparr>completed_cycles := completed_cycles st1 + 1\<rparr>;
                        b = a\<lparr>total_volume := total_volume a + (buy_price + sell_price) * qty\<rparr>;
                        c = b\<lparr>total_fees_paid := total_fees_paid b + fees_paid\<rparr>
                    in if pnl > 0 then c\<lparr>profitable_cycles := profitable_cycles c + 1\<rparr>
                       else c\<lparr>losing_cycles := losing_cycles c + 1\<rparr>)
                 else st1);
          st3 = st2\<lparr>total_buy_adjustments := total_buy_adjustments st2 + buy_adjustments\<rparr>
      in st3\<lparr>total_sell_adjustments := total_sell_adjustments st3 + sell_adjustments\<rparr>)"

text \<open>A sequence of \<^verbatim>\<open>add_cycle\<close> calls, each given by its arguments, applied in order.\<close>

record cycle_call =
  arg_success :: bool
  arg_buy_price :: rat
  arg_sell_price :: rat
  arg_quantity :: rat
  arg_pnl :: rat
  arg_buy_adjustments :: int
  arg_sell_adjustments :: int
  arg_fees_paid :: rat

definition add_cycle_call :: "trading_stats \<Rightarrow> cycle_call \<Rightarrow> trading_stats" where
  "add_cycle_call st c =
     add_cycle st (arg_success c) (arg_buy_price c) (arg_sell_price c) (arg_quantity c)
       (arg_pnl c) (arg_buy_adjustments c) (arg_sell_adjustments c) (arg_fees_paid c)"

fun add_cycles :: "trading_stats \<Rightarrow> cycle_call list \<Rightarrow> trading_stats" where
  "add_cycles st [] = st"
| "add_cycles st (c # cs) = add_cycles (add_cycle_call st c) cs"

section \<open>Properties of the outlier filter\<close>

lemma median_value:
  "xs \<noteq> [] \<Longrightarrow>
   median xs = Inr (if length xs mod 2 = 1 then sort xs ! (length xs div 2)
                    else (sort xs ! (length xs div 2 - 1) + sort xs ! (length xs div 2)) / 2)"
proof -
  assume "xs \<noteq> []"
  then have "sort xs \<noteq> []"
    by (metis length_0_conv length_sort)
  then show ?thesis
    by (simp add: median_def Let_def)
qed

lemma median_nonempty: "xs \<noteq> [] \<Longrightarrow> \<exists>m. median xs = Inr m"
  using median_value by blast

lemma keep_within_subseq: "subseq (keep_within m d prices) prices"
  by (induction prices) (simp_all add: list_emb_Cons)

lemma keep_within_set: "set (keep_within m d prices) \<subseteq> set prices"
  by (induction prices) auto

lemma filter_outlier_prices_long:
  assumes "2 < length prices"
  shows "\<exists>m. median prices = Inr m \<and>
           filter_outlier_prices prices pct =
             Inr (if keep_within m (m * (pct / 100)) prices \<noteq> []
                  then keep_within m (m * (pct / 100)) prices else [prices ! 0])"
proof -
  from assms have "prices \<noteq> []" by auto
  then obtain m where m: "median prices = Inr m"
    using median_nonempty by blast
  with assms show ?thesis
    by (simp add: filter_outlier_prices_def bind_e_def Let_def)
qed

lemma filter_outlier_prices_returns: "\<exists>ys. filter_outlier_prices prices pct = Inr ys"
proof (cases "length prices \<le> 2")
  case True
  then show ?thesis by (simp add: filter_outlier_prices_def)
next
  case False
  then have "2 < length prices" by simp
  from filter_outlier_prices_long [OF this, of pct] show ?thesis by blast
qed

text \<open>
  C7. The filter raises nothing and a non-empty input gives a non-empty result; an input
  of at most two prices is returned unchanged; a longer input gives the prices within
  the allowed deviation of its median, and the list of its first price alone when no
  price is within it.
\<close>

theorem filter_outlier_prices_nonempty:
  "(prices \<noteq> [] \<longrightarrow>
      (\<exists>ys. filter_outlier_prices prices pct = Inr ys \<and> ys \<noteq> [])) \<and>
   (length prices \<le> 2 \<longrightarrow> filter_outlier_prices prices pct = Inr prices) \<and>
   (2 < length prices \<longrightarrow>
      (\<exists>m. median prices = Inr m \<and>
           filter_outlier_prices prices pct =
             Inr (if keep_within m (m * (pct / 100)) prices = [] then [hd prices]
                  else keep_within m (m * (pct / 100)) prices)))"
proof (intro conjI impI)
  assume ne: "prices \<noteq> []"
  show "\<exists>ys. filter_outlier_prices prices pct = Inr ys \<and> ys \<noteq> []"
  proof (cases "length prices \<le> 2")
    case True
    with ne show ?thesis by (simp add: filter_outlier_prices_def)
  next
    case False
    then have "2 < length prices" by simp
    from filter_outlier_prices_long [OF this, of pct] show ?thesis by auto
  qed
next
  assume "length prices \<le> 2"
  then show "filter_outlier_prices prices pct = Inr prices"
    by (simp add: filter_outlier_prices_def)
next
  assume long: "2 < length prices"
  then have first: "prices ! 0 = hd prices"
    by (cases prices) simp_all
  from filter_outlier_prices_long [OF long, of pct] obtain m where
    m: "median prices = Inr m" and
    r: "filter_outlier_prices prices pct =
          Inr (if keep_within m (m * (pct / 100)) prices \<noteq> []
               then keep_within m (m * (pct / 100)) prices else [prices ! 0])"
    by blast
  from r first have "filter_outlier_prices prices pct =
      Inr (if keep_within m (m * (pct / 100)) prices = [] then [hd prices]
           else keep_within m (m * (pct / 100)) prices)"
    by simp
  with m show "\<exists>m. median prices = Inr m \<and>
      filter_outlier_prices prices pct =
        Inr (if keep_within m (m * (pct / 100)) prices = [] then [hd prices]
             else keep_within m (m * (pct / 100)) prices)"
    by blast
qed

text \<open>
  Three inputs: on 1, 2, 100, 101 the median is 51, no price lies within 1.5 percent of
  it, and the first price alone is returned; on 99.5, 80, 100.5 the price 80 is dropped;
  the two prices 10, 11 are returned as they are.
\<close>

theorem filter_outlier_prices_nonempty_witness:
  "[1, 2, 100, 101 :: rat] \<noteq> [] \<and> 2 < length [1, 2, 100, 101 :: rat] \<and>
   median [1, 2, 100, 101] = Inr 51 \<and>
   keep_within 51 (51 * (1.5 / 100)) [1, 2, 100, 101] = [] \<and>
   filter_outlier_prices [1, 2, 100, 101] 1.5 = Inr [hd [1, 2, 100, 101]] \<and>
   filter_outlier_prices [1, 2, 100, 101] 1.5 = Inr [1] \<and>
   [99.5, 80, 100.5 :: rat] \<noteq> [] \<and> 2 < length [99.5, 80, 100.5 :: rat] \<and>
   median [99.5, 80, 100.5] = Inr 99.5 \<and>
   keep_within 99.5 (99.5 * (1.5 / 100)) [99.5, 80, 100.5] = [99.5, 100.5] \<and>
   filter_outlier_prices [99.5, 80, 100.5] 1.5 = Inr [99.5, 100.5] \<and>
   length [10, 11 :: rat] \<le> 2 \<and>
   filter_outlier_prices [10, 11] 1.5 = Inr [10, 11]"
proof -
  have len4: "2 < length [1, 2, 100, 101 :: rat]" and len3: "2 < length [99.5, 80, 100.5 :: rat]"
    and len2: "length [10, 11 :: rat] \<le> 2"
    by simp_all
  have med4: "median [1, 2, 100, 101] = Inr 51" and med3: "median [99.5, 80, 100.5] = Inr 99.5"
    by (simp_all add: median_def)
  have keep4: "keep_within 51 (51 * (1.5 / 100)) [1, 2, 100, 101] = []"
    and keep3: "keep_within 99.5 (99.5 * (1.5 / 100)) [99.5, 80, 100.5] = [99.5, 100.5]"
    by simp_all
  from filter_outlier_prices_nonempty [of "[1, 2, 100, 101]" "1.5"] len4
  obtain m where "median [1, 2, 100, 101] = Inr m" and
    "filter_outlier_prices [1, 2, 100, 101] 1.5 =
       Inr (if keep_within m (m * (1.5 / 100)) [1, 2, 100, 101] = []
            then [hd [1, 2, 100, 101]]
            else keep_within m (m * (1.5 / 100)) [1, 2, 100, 101])"
    by blast
  with med4 keep4 have r4: "filter_outlier_prices [1, 2, 100, 101] 1.5 = Inr [1]"
    by simp
  from filter_outlier_prices_nonempty [of "[99.5, 80, 100.5]" "1.5"] len3
  obtain m' where "median [99.5, 80, 100.5] = Inr m'" and
    "filter_outlier_prices [99.5, 80, 100.5] 1.5 =
       Inr (if keep_within m' (m' * (1.5 / 100)) [99.5, 80, 100.5] = []
            then [hd [99.5, 80, 100.5]]
            else keep_within m' (m' * (1.5 / 100)) [99.5, 80, 100.5])"
    by blast
  with med3 keep3 have r3: "filter_outlier_prices [99.5, 80, 100.5] 1.5 = Inr [99.5, 100.5]"
    by simp
  from filter_outlier_prices_nonempty [of "[10, 11]" "1.5"] len2
  have r2: "filter_outlier_prices [10, 11] 1.5 = Inr [10, 11]"
    by blast
  from len4 len3 len2 med4 med3 keep4 keep3 r4 r3 r2 show ?thesis
    by simp
qed

text \<open>
  The same evaluations from the definition alone, and the fallback on an input whose
  first two prices agree.
\<close>

lemma filter_outlier_prices_fallback:
  "filter_outlier_prices [1, 1, 100, 100] 1.5 = Inr [1]"
  by (simp add: filter_outlier_prices_def bind_e_def median_def)

lemma filter_outlier_prices_fallback_first:
  "filter_outlier_prices [1, 2, 100, 101] 1.5 = Inr [1]"
  by (simp add: filter_outlier_prices_def bind_e_def median_def)

lemma filter_outlier_prices_drops:
  "filter_outlier_prices [99.5, 80, 100.5] 1.5 = Inr [99.5, 100.5]"
  by (simp add: filter_outlier_prices_def bind_e_def median_def)

text \<open>
  C10. For every input list and every threshold the filter returns a list whose elements
  all come from the input and stand in the input's order: a subsequence of the input.
\<close>

theorem filter_outlier_prices_subseq:
  "\<exists>ys. filter_outlier_prices prices pct = Inr ys \<and>
        subseq ys prices \<and> set ys \<subseteq> set prices"
proof (cases "length prices \<le> 2")
  case True
  then show ?thesis by (simp add: filter_outlier_prices_def)
next
  case False
  then have long: "2 < length prices" by simp
  then obtain x rest where px: "prices = x # rest"
    by (cases prices) auto
  from filter_outlier_prices_long [OF long, of pct] obtain m where
    r: "filter_outlier_prices prices pct =
          Inr (if keep_within m (m * (pct / 100)) prices \<noteq> []
               then keep_within m (m * (pct / 100)) prices else [prices ! 0])"
    by blast
  show ?thesis
  proof (cases "keep_within m (m * (pct / 100)) prices \<noteq> []")
    case True
    with r keep_within_subseq [of m "m * (pct / 100)" prices]
      keep_within_set [of m "m * (pct / 100)" prices]
    show ?thesis by simp
  next
    case False
    with r px show ?thesis by simp
  qed
qed

theorem filter_outlier_prices_subseq_witness:
  "\<exists>ys. filter_outlier_prices [1, 1, 100, 100] 1.5 = Inr ys \<and>
        subseq ys [1, 1, 100, 100] \<and> set ys \<subseteq> set [1, 1, 100, 100 :: rat]"
  using filter_outlier_prices_subseq [of "[1, 1, 100, 100]" "1.5"] by simp

section \<open>The price oracle on concrete books\<close>

lemmas oracle_defs = get_robust_market_prices_def robust_prices_def bind_e_def
  filter_outlier_prices_def median_def weighted_price_def checked_best_def inverted_def
  py_ge_def top_median_def levels_def

text \<open>
  C1. A snapshot with three levels per side whose bid side lies a few ticks above its
  ask side: the first comparison finds the pair inverted, the weighted prices are inverted
  too, and the medians of the top levels are returned without a further comparison. The
  result is a pair with bid above ask, and it is not the unavailable result.
\<close>

theorem crossed_book_inverted:
  "get_robust_market_prices
     (Inr \<lparr>bid = levels [(100.05, 1), (100.04, 1), (100.03, 1)],
           ask = levels [(100.00, 1), (100.01, 1), (100.02, 1)]\<rparr>) 10
   = (Some 100.04, Some 100.01) \<and>
   \<not> unavailable (Some 100.04, Some 100.01) \<and> \<not> (100.04 :: rat) < 100.01"
  by (simp add: oracle_defs unavailable_def truthy_def)

text \<open>
  C3. The scenario of the claim, evaluated: the weighted bid reference is taken over the
  top three bid levels with the level at 80.00 included, it lies more than one percent
  from the best bid and replaces it, so the returned bid is 87.3725; the returned ask is
  the best ask 100.02.
\<close>

theorem outlier_scenario_value:
  "get_robust_market_prices
     (Inr \<lparr>bid = levels [(99.98, 1), (99.50, 2), (80.00, 5)],
           ask = levels [(100.02, 1), (100.5, 2)]\<rparr>) 10
   = (Some 87.3725, Some 100.02)"
  by (simp add: oracle_defs)

text \<open>
  C8. A book with one bid level and no ask level: the result is the pair of the bid and
  \<open>None\<close>, which the callers' test does not take as unavailable.
\<close>

theorem empty_ask_side_value:
  "get_robust_market_prices (Inr \<lparr>bid = levels [(100, 1)], ask = levels []\<rparr>) 10
     = (Some 100, None) \<and>
   \<not> unavailable
       (get_robust_market_prices (Inr \<lparr>bid = levels [(100, 1)], ask = levels []\<rparr>) 10)"
  by (simp add: oracle_defs unavailable_def truthy_def)

text \<open>
  The other cases of the same claim hold: a failing gateway call and a book that is empty
  on both sides give \<open>(None, None)\<close>, and an empty bid side gives no bid. No exception
  leaves \<open>get_robust_market_prices\<close>: its result type has no error.
\<close>

lemma gateway_failure_unavailable:
  "get_robust_market_prices (Inl e) depth = (None, None)"
  by (simp add: get_robust_market_prices_def bind_e_def)

lemma checked_best_None: "checked_best None w = None"
  by (simp add: checked_best_def)

lemma inverted_None: "inverted None a = False"
  by (simp add: inverted_def)

lemma empty_bid_side_unavailable:
  assumes "bid ob = []"
  shows "fst (get_robust_market_prices (Inr ob) depth) = None"
  using assms
  by (simp add: get_robust_market_prices_def robust_prices_def bind_e_def Let_def
      filter_outlier_prices_def weighted_price_def checked_best_None inverted_None
      split: sum.splits)

lemma empty_book_unavailable:
  assumes "bid ob = []" "ask ob = []"
  shows "get_robust_market_prices (Inr ob) depth = (None, None)"
  using assms
  by (simp add: get_robust_market_prices_def robust_prices_def bind_e_def Let_def
      filter_outlier_prices_def weighted_price_def checked_best_None inverted_None)

text \<open>
  On a book that is not crossed the oracle does return a pair with bid below ask: when
  both sides are non-empty, the top three levels of each side have positive sizes and
  are no better than the side's first level, and the first bid is below the first ask,
  both returned prices lie on their own side of the spread.
\<close>

lemma weighted_sum_levels:
  "sum_list (map (\<lambda>(p, s). p * s) (zip (map price ls) (map quantity ls))) =
   sum_list (map (\<lambda>l. price l * quantity l) ls)"
  by (induction ls) simp_all

lemma total_size_pos:
  "ls \<noteq> [] \<Longrightarrow> \<forall>l \<in> set ls. 0 < quantity l \<Longrightarrow> 0 < sum_list (map quantity ls)"
proof (induction ls)
  case Nil
  then show ?case by simp
next
  case (Cons l ls)
  show ?case
  proof (cases "ls = []")
    case True
    with Cons.prems show ?thesis by simp
  next
    case False
    with Cons have "0 < sum_list (map quantity ls)" by simp
    with Cons.prems show ?thesis by (simp add: add_pos_pos)
  qed
qed

lemma weighted_sum_upper:
  "\<forall>l \<in> set ls. price l \<le> c \<and> 0 < quantity l \<Longrightarrow>
   sum_list (map (\<lambda>l. price l * quantity l) ls) \<le> c * sum_list (map quantity ls)"
proof (induction ls)
  case Nil
  then show ?case by simp
next
  case (Cons l ls)
  then have "price l * quantity l \<le> c * quantity l"
    by (simp add: mult_right_mono)
  moreover from Cons have
    "sum_list (map (\<lambda>l. price l * quantity l) ls) \<le> c * sum_list (map quantity ls)"
    by simp
  ultimately show ?case by (simp add: distrib_left)
qed

lemma weighted_sum_lower:
  "\<forall>l \<in> set ls. c \<le> price l \<and> 0 < quantity l \<Longrightarrow>
   c * sum_list (map quantity ls) \<le> sum_list (map (\<lambda>l. price l * quantity l) ls)"
proof (induction ls)
  case Nil
  then show ?case by simp
next
  case (Cons l ls)
  then have "c * quantity l \<le> price l * quantity l"
    by (simp add: mult_right_mono)
  moreover from Cons have
    "c * sum_list (map quantity ls) \<le> sum_list (map (\<lambda>l. price l * quantity l) ls)"
    by simp
  ultimately show ?case by (simp add: distrib_left)
qed

lemma weighted_price_levels:
  assumes "ls \<noteq> []" "\<forall>l \<in> set ls. 0 < quantity l"
  shows "weighted_price (map price ls) (map quantity ls) best =
         Inr (Some (sum_list (map (\<lambda>l. price l * quantity l) ls) / sum_list (map quantity ls)))"
  using assms total_size_pos [OF assms]
  by (simp add: weighted_price_def Let_def weighted_sum_levels)

lemma checked_best_cases:
  "checked_best (Some b) (Some w) = Some b \<or> checked_best (Some b) (Some w) = Some w"
  by (simp add: checked_best_def)

lemma uncrossed_book_not_inverted:
  assumes bids: "bid ob \<noteq> []" and asks: "ask ob \<noteq> []" and depth: "0 < depth"
    and bid_top: "\<forall>l \<in> set (take 3 (bid ob)). price l \<le> price (bid ob ! 0) \<and> 0 < quantity l"
    and ask_top: "\<forall>l \<in> set (take 3 (ask ob)). price (ask ob ! 0) \<le> price l \<and> 0 < quantity l"
    and spread: "price (bid ob ! 0) < price (ask ob ! 0)"
  shows "\<exists>b a. get_robust_market_prices (Inr ob) depth = (Some b, Some a) \<and> b < a"
proof -
  define bl where "bl = take 3 (take depth (bid ob))"
  define al where "al = take 3 (take depth (ask ob))"
  define b0 where "b0 = price (bid ob ! 0)"
  define a0 where "a0 = price (ask ob ! 0)"
  define wb where "wb = sum_list (map (\<lambda>l. price l * quantity l) bl) / sum_list (map quantity bl)"
  define wa where "wa = sum_list (map (\<lambda>l. price l * quantity l) al) / sum_list (map quantity al)"
  have bl_ne: "bl \<noteq> []" and al_ne: "al \<noteq> []"
    using bids asks depth by (simp_all add: bl_def al_def)
  have bl_sub: "set bl \<subseteq> set (take 3 (bid ob))" and al_sub: "set al \<subseteq> set (take 3 (ask ob))"
    by (auto simp: bl_def al_def take_take min_def dest: in_set_takeD
        intro: set_take_subset_set_take [THEN subsetD, rotated])
  have bl_ok: "\<forall>l \<in> set bl. price l \<le> b0 \<and> 0 < quantity l"
    using bid_top bl_sub by (auto simp: b0_def)
  have al_ok: "\<forall>l \<in> set al. a0 \<le> price l \<and> 0 < quantity l"
    using ask_top al_sub by (auto simp: a0_def)
  have bpos: "0 < sum_list (map quantity bl)" and apos: "0 < sum_list (map quantity al)"
    using total_size_pos bl_ne al_ne bl_ok al_ok by blast+
  have wb_le: "wb \<le> b0"
    using weighted_sum_upper [OF bl_ok] bpos by (simp add: wb_def pos_divide_le_eq)
  have wa_ge: "a0 \<le> wa"
    using weighted_sum_lower [OF al_ok] apos by (simp add: wa_def pos_le_divide_eq)
  have w_bid: "weighted_price (take 3 (map price (take depth (bid ob))))
      (take 3 (map quantity (take depth (bid ob)))) best = Inr (Some wb)" for best
    using weighted_price_levels [of bl best] bl_ne bl_ok
    by (simp add: bl_def wb_def take_map)
  have w_ask: "weighted_price (take 3 (map price (take depth (ask ob))))
      (take 3 (map quantity (take depth (ask ob)))) best = Inr (Some wa)" for best
    using weighted_price_levels [of al best] al_ne al_ok
    by (simp add: al_def wa_def take_map)
  have first_bid: "map price (take depth (bid ob)) \<noteq> [] \<and>
      map price (take depth (bid ob)) ! 0 = b0"
    using bids depth by (cases "bid ob"; cases depth) (simp_all add: b0_def)
  have first_ask: "map price (take depth (ask ob)) \<noteq> [] \<and>
      map price (take depth (ask ob)) ! 0 = a0"
    using asks depth by (cases "ask ob"; cases depth) (simp_all add: a0_def)
  obtain fb where fb: "filter_outlier_prices (drop 1 (map price (take depth (bid ob)))) 1.5 = Inr fb"
    using filter_outlier_prices_returns by blast
  obtain fa where fa: "filter_outlier_prices (drop 1 (map price (take depth (ask ob)))) 1.5 = Inr fa"
    using filter_outlier_prices_returns by blast
  obtain x where x: "checked_best (Some b0) (Some wb) = Some x" "x \<le> b0"
    using checked_best_cases [of b0 wb] wb_le by auto
  obtain y where y: "checked_best (Some a0) (Some wa) = Some y" "a0 \<le> y"
    using checked_best_cases [of a0 wa] wa_ge by auto
  have xy: "x < y"
    using x(2) y(2) spread by (simp add: b0_def a0_def)
  then have not_inv: "\<not> inverted (Some x) (Some y)"
    by (simp add: inverted_def)
  have "robust_prices ob depth = Inr (Some x, Some y)"
    using first_bid first_ask fb fa x(1) y(1) not_inv
    by (simp add: robust_prices_def Let_def bind_e_def w_bid w_ask)
  then have "get_robust_market_prices (Inr ob) depth = (Some x, Some y)"
    by (simp add: get_robust_market_prices_def bind_e_def)
  with xy show ?thesis by blast
qed

section \<open>The closing leg\<close>

text \<open>
  The top band at the third re-price, 90 seconds into the leg: the offset is
  \<open>max (1.20 - 3 * 0.15) 0.50 = 0.75\<close>, not \<open>max (1.50 - 3 * 0.15) 0.50 = 1.05\<close>.
\<close>

theorem sell_reprice_top_band_counterexample:
  "fst (sell_reprice 90 3.5 3 100 1.50) = 0.75 \<and>
   fst (sell_reprice 90 3.5 3 100 1.50) \<noteq> max (1.50 - 3 * 0.15) 0.50"
  by (simp add: sell_reprice_def max_wait_time_def)

text \<open>
  C2, amended. For a long close with potential P&L of at least 3.00 the first placement
  (no adjustment yet) uses the offset 1.50 above the best ask, and a re-price before the
  forced-exit deadline with adjustment count \<open>n\<close> uses \<open>max (1.20 - n * 0.15) 0.50\<close>,
  which is 0.75 at \<open>n = 3\<close>.
\<close>

theorem sell_top_band_offsets:
  assumes "potential_pnl \<ge> 3"
  shows "sell_initial best_ask buy_price potential_pnl = (1.50, best_ask + 1.50) \<and>
         (elapsed < max_wait_time \<longrightarrow>
            sell_reprice elapsed potential_pnl n best_ask off =
              (max (1.20 - of_int n * 0.15) 0.50,
               best_ask + max (1.20 - of_int n * 0.15) 0.50))"
  using assms by (simp add: sell_initial_def sell_reprice_def Let_def)

theorem sell_top_band_offsets_witness:
  "(3.5 :: rat) \<ge> 3 \<and> (90 :: int) < max_wait_time \<and>
   sell_initial 100 96.5 3.5 = (1.50, 101.50) \<and>
   sell_reprice 90 3.5 3 100 1.50 = (0.75, 100.75)"
  using sell_top_band_offsets [of "3.5" 100 "96.5" 90 3 "1.50"]
  by (simp add: max_wait_time_def)

text \<open>
  Once the elapsed time has reached \<open>max_wait_time\<close>, a re-price sets the price to the best
  ask plus 0.01 whatever the potential P&L, in the chain and in the adjusting block.
\<close>

lemma sell_reprice_forced_exit:
  "elapsed \<ge> max_wait_time \<Longrightarrow>
   snd (sell_reprice elapsed potential_pnl n best_ask off) = best_ask + 0.01"
  by (simp add: sell_reprice_def)

lemma sell_adjust_forced_exit:
  assumes "elapsed \<ge> max_wait_time" "quote obs = (Some b, Some a)" "b \<noteq> 0"
  shows "\<exists>s'. sell_adjust buy_price qty elapsed s obs = Continue s' \<and>
              current_price s' = a + 0.01 \<and>
              adjustment_count s' = adjustment_count s + 1"
  using assms
  by (cases "placed obs")
    (auto simp: sell_adjust_def truthy_def Let_def sell_reprice_def)

text \<open>
  C4. A leg 1200 seconds old whose last price was set 10 seconds ago, not filled, with a
  quote of (100, 100.02): the iteration of \<^verbatim>\<open>volume_bot_maker_only_v3.py\<close> does not
  adjust and leaves the order as it is; the iteration of \<^verbatim>\<open>shorter.py\<close> adjusts and
  re-prices to 100.02 + 0.01.
\<close>

theorem sell_forced_exit_trigger:
  "sell_iteration_v3 100.5 1
     \<lparr>order_id = 1, current_price = 100.12, offset = 0.10, adjustment_count = 39,
      order_start_time = 0, last_adjustment = 1190\<rparr>
     \<lparr>now = 1200, filled = False, quote = (Some 100, Some 100.02), placed = Some (2, 1201)\<rparr>
   = Continue
       \<lparr>order_id = 1, current_price = 100.12, offset = 0.10, adjustment_count = 39,
        order_start_time = 0, last_adjustment = 1190\<rparr> \<and>
   sell_iteration_shorter 100.5 1
     \<lparr>order_id = 1, current_price = 100.12, offset = 0.10, adjustment_count = 39,
      order_start_time = 0, last_adjustment = 1190\<rparr>
     \<lparr>now = 1200, filled = False, quote = (Some 100, Some 100.02), placed = Some (2, 1201)\<rparr>
   = Continue
       \<lparr>order_id = 2, current_price = 100.03, offset = 0.10, adjustment_count = 40,
        order_start_time = 0, last_adjustment = 1201\<rparr>"
  by (simp add: sell_iteration_v3_def sell_iteration_shorter_def py_int_def
      sell_adjustment_interval_def max_wait_time_def sell_adjust_def truthy_def
      sell_reprice_def)

text \<open>
  Where an iteration does adjust at or after the deadline with a quote at hand, both
  variants set the price to the best ask plus 0.01; the v3 variant needs the adjustment
  interval to have passed as well.
\<close>

lemma sell_iteration_shorter_forced:
  assumes "\<not> filled obs" "py_int (now obs - order_start_time s) \<ge> max_wait_time"
    "quote obs = (Some b, Some a)" "b \<noteq> 0"
  shows "\<exists>s'. sell_iteration_shorter entry_price qty s obs = Continue s' \<and>
              current_price s' = a + 0.01"
  using assms sell_adjust_forced_exit [OF assms(2) assms(3) assms(4), of entry_price qty s]
  by (auto simp: sell_iteration_shorter_def Let_def)

lemma sell_iteration_v3_forced:
  assumes "\<not> filled obs" "py_int (now obs - order_start_time s) \<ge> max_wait_time"
    "py_int (now obs - last_adjustment s) \<ge> sell_adjustment_interval"
    "quote obs = (Some b, Some a)" "b \<noteq> 0"
  shows "\<exists>s'. sell_iteration_v3 buy_price qty s obs = Continue s' \<and>
              current_price s' = a + 0.01"
  using assms sell_adjust_forced_exit [OF assms(2) assms(4) assms(5), of buy_price qty s]
  by (auto simp: sell_iteration_v3_def Let_def)


section \<open>The trend tracker\<close>

lemma count_ones: "sum_list (map (\<lambda>i. 1 :: int) xs) = int (length xs)"
  by (induction xs) simp_all

lemma length_filter_upt:
  "length (filter P [1 ..< n]) = card {i. 1 \<le> i \<and> i < n \<and> P i}"
proof -
  have "length (filter P [1 ..< n]) = card ({i. P i} \<inter> set [1 ..< n])"
    by (simp add: distinct_length_filter)
  also have "{i. P i} \<inter> set [1 ..< n] = {i. 1 \<le> i \<and> i < n \<and> P i}"
    by auto
  finally show ?thesis .
qed

lemma is_downtrend_short: "length (price_history tr) < 3 \<Longrightarrow> \<not> is_downtrend tr"
  by (simp add: is_downtrend_def)

lemma downtrend_count_card:
  "sum_list (map (\<lambda>i. 1 :: int) (filter (\<lambda>i. r ! i < r ! (i - 1)) [1 ..< length r])) =
   int (card {i. 1 \<le> i \<and> i < length r \<and> r ! i < r ! (i - 1)})"
  by (simp only: count_ones length_filter_upt)

lemma guard_chain:
  fixes c m k :: nat
  assumes "k < 3 \<Longrightarrow> m < 3"
  shows "(if k < 3 then False else if m < 3 then False else int c \<ge> int m - 1) =
         (3 \<le> m \<and> m - 1 \<le> c)"
  using assms by (cases "k < 3") auto

lemma is_downtrend_count:
  "is_downtrend tr =
     (let r = map snd (drop (length (price_history tr) - 5) (price_history tr));
          n = length r
      in 3 \<le> n \<and> n - 1 \<le> card {i. 1 \<le> i \<and> i < n \<and> r ! i < r ! (i - 1)})"
  unfolding is_downtrend_def Let_def downtrend_count_card
  by (rule guard_chain) simp

lemma is_downtrend_example:
  "is_downtrend (tr\<lparr>price_history := [(t1, 10), (t2, 9), (t3, 8), (t4, 7), (t5, 6)]\<rparr>)"
  by (simp add: is_downtrend_def upt_conv_Cons)

text \<open>
  C6. \<open>is_downtrend\<close> is false with fewer than three recorded points; it is true exactly
  when the last \<open>n \<le> 5\<close> recorded points are at least three and at least \<open>n - 1\<close> of
  their consecutive pairs are strictly decreasing; it is true for the recorded prices
  10, 9, 8, 7, 6.
\<close>

theorem is_downtrend_spec:
  "(length (price_history tr) < 3 \<longrightarrow> \<not> is_downtrend tr) \<and>
   (is_downtrend tr =
     (let r = map snd (drop (length (price_history tr) - 5) (price_history tr));
          n = length r
      in 3 \<le> n \<and> n - 1 \<le> card {i. 1 \<le> i \<and> i < n \<and> r ! i < r ! (i - 1)})) \<and>
   is_downtrend (tr\<lparr>price_history := [(t1, 10), (t2, 9), (t3, 8), (t4, 7), (t5, 6)]\<rparr>)"
  using is_downtrend_short [of tr] is_downtrend_count [of tr] is_downtrend_example
  by blast

theorem is_downtrend_spec_witness:
  "length (price_history MarketTrendTracker) < 3 \<and>
   \<not> is_downtrend MarketTrendTracker \<and>
   is_downtrend
     (MarketTrendTracker\<lparr>price_history := [(1, 10), (2, 9), (3, 8), (4, 7), (5, 6)]\<rparr>) \<and>
   \<not> is_downtrend
     (MarketTrendTracker\<lparr>price_history := [(1, 10), (2, 9), (3, 8), (4, 7), (5, 7)]\<rparr>)"
  using is_downtrend_spec [of MarketTrendTracker]
  by (simp add: MarketTrendTracker_def is_downtrend_def upt_conv_Cons)

text \<open>
  C5. \<open>record_cycle_result\<close> adds one to the consecutive-loss counter exactly when the
  P&L is below -0.50 and sets it to zero otherwise; from a zero counter the results
  -0.60, -0.75, -0.55 make \<open>should_cooldown\<close> true, and \<open>do_cooldown\<close> then leaves the
  counter at zero.
\<close>

theorem record_cycle_result_streak:
  "(pnl < - 0.50 \<longrightarrow>
      consecutive_losses (record_cycle_result tr pnl) = consecutive_losses tr + 1) \<and>
   (\<not> pnl < - 0.50 \<longrightarrow> consecutive_losses (record_cycle_result tr pnl) = 0) \<and>
   (consecutive_losses tr = 0 \<longrightarrow>
      should_cooldown
        (record_cycle_result (record_cycle_result (record_cycle_result tr (- 0.60)) (- 0.75))
           (- 0.55)) \<and>
      consecutive_losses
        (fst (do_cooldown
           (record_cycle_result (record_cycle_result (record_cycle_result tr (- 0.60)) (- 0.75))
              (- 0.55)) t duration_minutes)) = 0)"
  by (simp add: record_cycle_result_def should_cooldown_def do_cooldown_def Let_def)

theorem record_cycle_result_streak_witness:
  "(- 0.6 :: rat) < - 0.50 \<and>
   consecutive_losses (record_cycle_result MarketTrendTracker (- 0.6)) = 1 \<and>
   \<not> (0.2 :: rat) < - 0.50 \<and>
   consecutive_losses
     (record_cycle_result (MarketTrendTracker\<lparr>consecutive_losses := 2\<rparr>) 0.2) = 0 \<and>
   consecutive_losses MarketTrendTracker = 0 \<and>
   should_cooldown
     (record_cycle_result
        (record_cycle_result (record_cycle_result MarketTrendTracker (- 0.60)) (- 0.75))
        (- 0.55)) \<and>
   consecutive_losses
     (fst (do_cooldown
        (record_cycle_result
           (record_cycle_result (record_cycle_result MarketTrendTracker (- 0.60)) (- 0.75))
           (- 0.55)) 0 10)) = 0"
  using record_cycle_result_streak [of "- 0.6" MarketTrendTracker 0 10]
    record_cycle_result_streak [of "0.2" "MarketTrendTracker\<lparr>consecutive_losses := 2\<rparr>" 0 10]
  by (simp add: MarketTrendTracker_def)

section \<open>The statistics counters\<close>

lemma add_cycle_success:
  "completed_cycles (add_cycle st True bp sp q pnl ba sa fees) = completed_cycles st + 1 \<and>
   profitable_cycles (add_cycle st True bp sp q pnl ba sa fees) =
     (if pnl > 0 then profitable_cycles st + 1 else profitable_cycles st) \<and>
   losing_cycles (add_cycle st True bp sp q pnl ba sa fees) =
     (if pnl > 0 then losing_cycles st else losing_cycles st + 1)"
  by (simp add: add_cycle_def Let_def)

lemma add_cycle_failure:
  "completed_cycles (add_cycle st False bp sp q pnl ba sa fees) = completed_cycles st \<and>
   profitable_cycles (add_cycle st False bp sp q pnl ba sa fees) = profitable_cycles st \<and>
   losing_cycles (add_cycle st False bp sp q pnl ba sa fees) = losing_cycles st"
  by (simp add: add_cycle_def Let_def)

lemma add_cycle_call_invariant:
  assumes "completed_cycles st = profitable_cycles st + losing_cycles st"
  shows "completed_cycles (add_cycle_call st c) =
         profitable_cycles (add_cycle_call st c) + losing_cycles (add_cycle_call st c)"
proof (cases "arg_success c")
  case True
  with assms show ?thesis
    using add_cycle_success [of st "arg_buy_price c" "arg_sell_price c" "arg_quantity c"
        "arg_pnl c" "arg_buy_adjustments c" "arg_sell_adjustments c" "arg_fees_paid c"]
    by (simp add: add_cycle_call_def)
next
  case False
  with assms show ?thesis
    using add_cycle_failure [of st "arg_buy_price c" "arg_sell_price c" "arg_quantity c"
        "arg_pnl c" "arg_buy_adjustments c" "arg_sell_adjustments c" "arg_fees_paid c"]
    by (simp add: add_cycle_call_def)
qed

lemma add_cycles_invariant:
  "completed_cycles st = profitable_cycles st + losing_cycles st \<Longrightarrow>
   completed_cycles (add_cycles st cs) =
     profitable_cycles (add_cycles st cs) + losing_cycles (add_cycles st cs)"
proof (induction cs arbitrary: st)
  case Nil
  then show ?case by simp
next
  case (Cons c cs)
  from Cons.prems have "completed_cycles (add_cycle_call st c) =
      profitable_cycles (add_cycle_call st c) + losing_cycles (add_cycle_call st c)"
    by (rule add_cycle_call_invariant)
  then show ?case
    using Cons.IH [of "add_cycle_call st c"] by simp
qed

text \<open>
  C9. From a fresh \<open>TradingStats\<close>, after any sequence of \<open>add_cycle\<close> calls the completed
  cycles are the profitable plus the losing ones. A call with \<open>success\<close> adds one to
  \<open>completed_cycles\<close> and to exactly one of \<open>profitable_cycles\<close> (P&L above zero) and
  \<open>losing_cycles\<close> (otherwise); a call without \<open>success\<close> changes none of the three.
\<close>

theorem add_cycle_counters:
  "completed_cycles (add_cycles (TradingStats t0) cs) =
     profitable_cycles (add_cycles (TradingStats t0) cs) +
     losing_cycles (add_cycles (TradingStats t0) cs) \<and>
   (success \<longrightarrow>
      completed_cycles (add_cycle st success bp sp q pnl ba sa fees) = completed_cycles st + 1 \<and>
      (pnl > 0 \<longrightarrow>
         profitable_cycles (add_cycle st success bp sp q pnl ba sa fees) =
           profitable_cycles st + 1 \<and>
         losing_cycles (add_cycle st success bp sp q pnl ba sa fees) = losing_cycles st) \<and>
      (pnl \<le> 0 \<longrightarrow>
         losing_cycles (add_cycle st success bp sp q pnl ba sa fees) = losing_cycles st + 1 \<and>
         profitable_cycles (add_cycle st success bp sp q pnl ba sa fees) =
           profitable_cycles st)) \<and>
   (\<not> success \<longrightarrow>
      completed_cycles (add_cycle st success bp sp q pnl ba sa fees) = completed_cycles st \<and>
      profitable_cycles (add_cycle st success bp sp q pnl ba sa fees) = profitable_cycles st \<and>
      losing_cycles (add_cycle st success bp sp q pnl ba sa fees) = losing_cycles st)"
proof -
  have "completed_cycles (TradingStats t0) =
      profitable_cycles (TradingStats t0) + losing_cycles (TradingStats t0)"
    by (simp add: TradingStats_def)
  then have inv: "completed_cycles (add_cycles (TradingStats t0) cs) =
     profitable_cycles (add_cycles (TradingStats t0) cs) +
     losing_cycles (add_cycles (TradingStats t0) cs)"
    by (rule add_cycles_invariant)
  show ?thesis
    using inv add_cycle_success [of st bp sp q pnl ba sa fees]
      add_cycle_failure [of st bp sp q pnl ba sa fees]
    by (cases success) auto
qed

theorem add_cycle_counters_witness:
  "completed_cycles (add_cycles (TradingStats 0)
      [\<lparr>arg_success = True, arg_buy_price = 100, arg_sell_price = 101, arg_quantity = 1,
        arg_pnl = 1, arg_buy_adjustments = 0, arg_sell_adjustments = 2, arg_fees_paid = 0\<rparr>,
       \<lparr>arg_success = False, arg_buy_price = 100, arg_sell_price = 0, arg_quantity = 1,
        arg_pnl = 0, arg_buy_adjustments = 1, arg_sell_adjustments = 0, arg_fees_paid = 0\<rparr>,
       \<lparr>arg_success = True, arg_buy_price = 100, arg_sell_price = 99, arg_quantity = 1,
        arg_pnl = - 1, arg_buy_adjustments = 0, arg_sell_adjustments = 5, arg_fees_paid = 0\<rparr>])
     = 2 \<and>
   profitable_cycles (add_cycle (TradingStats 0) True 100 101 1 1 0 2 0) = 1 \<and>
   losing_cycles (add_cycle (TradingStats 0) True 100 101 1 1 0 2 0) = 0 \<and>
   losing_cycles (add_cycle (TradingStats 0) True 100 99 1 (- 1) 0 5 0) = 1 \<and>
   completed_cycles (add_cycle (TradingStats 0) False 100 0 1 0 1 0 0) = 0"
  using add_cycle_counters [of 0
      "[\<lparr>arg_success = True, arg_buy_price = 100, arg_sell_price = 101, arg_quantity = 1,
         arg_pnl = 1, arg_buy_adjustments = 0, arg_sell_adjustments = 2, arg_fees_paid = 0\<rparr>,
        \<lparr>arg_success = False, arg_buy_price = 100, arg_sell_price = 0, arg_quantity = 1,
         arg_pnl = 0, arg_buy_adjustments = 1, arg_sell_adjustments = 0, arg_fees_paid = 0\<rparr>,
        \<lparr>arg_success = True, arg_buy_price = 100, arg_sell_price = 99, arg_quantity = 1,
         arg_pnl = - 1, arg_buy_adjustments = 0, arg_sell_adjustments = 5, arg_fees_paid = 0\<rparr>]"
      True "TradingStats 0" 100 101 1 1 0 2 0]
    add_cycle_counters [of 0 "[]" True "TradingStats 0" 100 99 1 "- 1" 0 5 0]
    add_cycle_counters [of 0 "[]" False "TradingStats 0" 100 0 1 0 1 0 0]
  by (simp add: TradingStats_def add_cycle_call_def add_cycle_def)

end
